theory Spec2Isabelle
  imports Main
begin

section \<open>Python values, code objects and frames\<close>

text \<open>
  The inspector (\<^verbatim>\<open>StackInspector\<close>) only reads live call-stack state. Of a
  Python object it observes its identity, its class and that class's ancestors
  (\<^verbatim>\<open>isinstance\<close>), its truth value (\<^verbatim>\<open>if item\<close>, \<^verbatim>\<open>if func\<close>, \<^verbatim>\<open>not exc_tp\<close>) and
  whether it can be called (\<^verbatim>\<open>callable(item)\<close>).
\<close>

text \<open>
  The exceptions that escape the inspector: \<^verbatim>\<open>AttributeError\<close> from an attribute
  read on \<^verbatim>\<open>None\<close>, and whatever the truth test of an object raises, given by the
  name of its type.
\<close>

datatype error = AttributeError | Raised string

text \<open>
  The truth test \<^verbatim>\<open>bool(x)\<close> runs the object's \<^verbatim>\<open>__bool__\<close> or \<^verbatim>\<open>__len__\<close>: it gives
  true or false, or it raises (an array of several elements raises
  \<^verbatim>\<open>ValueError\<close>).
\<close>

datatype truth = IsTrue | IsFalse | TruthRaises string

record code =
  co_name :: string
  co_firstlineno :: int
  co_freevars :: "string list"

text \<open>
  \<^item> \<open>PyNone\<close> is \<^verbatim>\<open>None\<close>.
  \<^item> \<open>PyObj i c bs t k\<close> is any other object: identity \<open>i\<close>, class \<open>c\<close>, the
    further classes \<open>bs\<close> of the class's method resolution order, outcome
    \<open>t\<close> of its truth test and callability \<open>k\<close>.
  \<^item> \<open>PyFunction i n c g\<close> is a function object made by \<^verbatim>\<open>FunctionType(c, globals=g, name=n)\<close>.
  \<^item> \<open>PyMethod i s n\<close> is the bound method object that the attribute access
    \<^verbatim>\<open>s.n\<close> creates; \<open>s\<close> is the identity of the receiver.
\<close>

datatype pyval =
    PyNone
  | PyObj nat string "string list" truth bool
  | PyFunction nat string code "string \<Rightarrow> pyval option"
  | PyMethod nat nat string

type_synonym pydict = "string \<Rightarrow> pyval option"

text \<open>
  The truth test of a value, as \<^verbatim>\<open>if x\<close>, \<^verbatim>\<open>x and ...\<close> and \<^verbatim>\<open>not x\<close> run it.
  \<^verbatim>\<open>None\<close> is false; functions and bound methods are true.
\<close>

fun truthy :: "pyval \<Rightarrow> error + bool" where
  "truthy PyNone = Inr False"
| "truthy (PyObj i c bs t k) =
     (case t of IsTrue \<Rightarrow> Inr True | IsFalse \<Rightarrow> Inr False | TruthRaises e \<Rightarrow> Inl (Raised e))"
| "truthy (PyFunction i n c g) = Inr True"
| "truthy (PyMethod i s n) = Inr True"


fun ident :: "pyval \<Rightarrow> nat" where
  "ident PyNone = 0"
| "ident (PyObj i c bs t k) = i"
| "ident (PyFunction i n c g) = i"
| "ident (PyMethod i s n) = i"

text \<open>The method resolution order of the value's class, the class itself first.\<close>

fun mro :: "pyval \<Rightarrow> string list" where
  "mro PyNone = [''NoneType'', ''object'']"
| "mro (PyObj i c bs t k) = c # bs"
| "mro (PyFunction i n c g) = [''function'', ''object'']"
| "mro (PyMethod i s n) = [''method'', ''object'']"

text \<open>\<^verbatim>\<open>self.__class__\<close>\<close>

definition class_of :: "pyval \<Rightarrow> string" where
  "class_of v = hd (mro v)"

text \<open>\<^verbatim>\<open>isinstance(v, c)\<close>: \<open>c\<close> is the class of \<open>v\<close> or one of its ancestors.\<close>

definition isinstance :: "pyval \<Rightarrow> string \<Rightarrow> bool" where
  "isinstance v c = (c \<in> set (mro v))"

text \<open>\<^verbatim>\<open>d.get(k)\<close>: the value bound to \<open>k\<close>, or \<^verbatim>\<open>None\<close>.\<close>

definition dict_get :: "pydict \<Rightarrow> string \<Rightarrow> pyval" where
  "dict_get d k = (case d k of None \<Rightarrow> PyNone | Some v \<Rightarrow> v)"

text \<open>
  A frame (\<^verbatim>\<open>FrameType\<close>) with the attributes the inspector reads. \<open>f_back\<close> is
  the calling frame, absent (\<^verbatim>\<open>None\<close>) at the outermost frame of the thread.
\<close>

datatype frame =
  Frame (f_locals: pydict) (f_globals: pydict) (f_code: code) (f_lineno: int)
        (f_back: "frame option")

text \<open>The frames from \<open>f\<close> outward along \<open>f_back\<close>, \<open>f\<close> first.\<close>

fun frame_chain :: "frame \<Rightarrow> frame list" where
  "frame_chain (Frame l g c n b) =
     Frame l g c n b # (case b of None \<Rightarrow> [] | Some p \<Rightarrow> frame_chain p)"

section \<open>The frame-chain walker\<close>

text \<open>
  \<^verbatim>\<open>
  def our_frame(self, frame: FrameType) -> bool:
      return isinstance(frame.f_locals.get('self'), self.__class__)
  \<close>
\<close>

definition our_frame :: "pyval \<Rightarrow> frame \<Rightarrow> bool" where
  "our_frame self frame = isinstance (dict_get (f_locals frame) ''self'') (class_of self)"

text \<open>
  \<^verbatim>\<open>
  while self.our_frame(frame):
      frame = cast(FrameType, frame.f_back)
  return frame
  \<close>
  \<^verbatim>\<open>cast\<close> does nothing at run time. Past the outermost frame, \<open>frame\<close> is
  \<^verbatim>\<open>None\<close> and the next test \<^verbatim>\<open>self.our_frame(None)\<close> reads \<^verbatim>\<open>None.f_locals\<close>,
  which raises \<^verbatim>\<open>AttributeError\<close>.
\<close>

function caller_frame_loop :: "pyval \<Rightarrow> frame option \<Rightarrow> error + frame" where
  "caller_frame_loop self None = Inl AttributeError"
| "caller_frame_loop self (Some frame) =
     (if our_frame self frame then caller_frame_loop self (f_back frame) else Inr frame)"
  by pat_completeness auto
termination
  by (relation "measure (\<lambda>(self, fo). case fo of None \<Rightarrow> 0 | Some f \<Rightarrow> Suc (size f))")
     (simp, case_tac frame, auto split: option.splits)

text \<open>
  The activation of a method of the inspector, called on \<open>self\<close> from the frame
  \<open>back\<close>. Its local \<^verbatim>\<open>self\<close> is the receiver; the walker and the search read no
  other binding of it before they leave it.
\<close>

definition activation :: "pyval \<Rightarrow> string \<Rightarrow> frame \<Rightarrow> frame" where
  "activation self meth back =
     Frame (Map.empty(''self'' \<mapsto> self)) Map.empty
           \<lparr>co_name = meth, co_firstlineno = 0, co_freevars = []\<rparr> 0 (Some back)"

text \<open>
  \<^verbatim>\<open>
  def caller_frame(self) -> FrameType:
      frame = cast(FrameType, inspect.currentframe())
      while self.our_frame(frame): ...
  \<close>
  \<open>back\<close> is the frame that calls \<^verbatim>\<open>self.caller_frame()\<close>; the current frame is
  the activation of \<^verbatim>\<open>caller_frame\<close> on top of it.
\<close>

definition caller_frame :: "pyval \<Rightarrow> frame \<Rightarrow> error + frame" where
  "caller_frame self back = caller_frame_loop self (Some (activation self ''caller_frame'' back))"

section \<open>The definition resolver\<close>




section \<open>The synthetic callable factory\<close>

text \<open>
  The process state the inspector writes: the class attribute
  \<^verbatim>\<open>_generated_function_cache\<close>, the warnings issued with \<^verbatim>\<open>warnings.warn\<close>, and
  the identity the next created object gets.
\<close>

record state =
  generated_function_cache :: "string \<times> int \<Rightarrow> pyval option"
  warnings :: "string list"
  next_id :: nat

text \<open>
  What \<^verbatim>\<open>FunctionType(frame.f_code, globals=frame.f_globals, name=name)\<close> does is
  decided by the Python runtime, not by the inspector: it returns a new function,
  raises \<^verbatim>\<open>TypeError\<close>, or raises another \<^verbatim>\<open>Exception\<close>, given here by
  \<^verbatim>\<open>type(exc).__name__\<close> and \<^verbatim>\<open>str(exc)\<close>. The constructor is a parameter of the
  factory.
\<close>

datatype construction = Constructed | RaisesTypeError | RaisesException string string

type_synonym function_type = "code \<Rightarrow> pydict \<Rightarrow> string \<Rightarrow> construction"

text \<open>
  \<^verbatim>\<open>warnings.warn(msg)\<close> under the default filters: the warning is reported and the
  call returns.
\<close>

definition warn :: "string \<Rightarrow> state \<Rightarrow> state" where
  "warn msg s = s\<lparr>warnings := warnings s @ [msg]\<rparr>"

text \<open>\<^verbatim>\<open>self.unknown\<close>: a new bound method object of the no-op method \<^verbatim>\<open>unknown\<close>.\<close>

definition unknown :: "pyval \<Rightarrow> state \<Rightarrow> pyval \<times> state" where
  "unknown self s = (PyMethod (next_id s) (ident self) ''unknown'', s\<lparr>next_id := Suc (next_id s)\<rparr>)"

text \<open>
  \<^verbatim>\<open>
  def create_function(self, frame: FrameType) -> Callable:
      name = frame.f_code.co_name
      cache_key = (name, frame.f_lineno)
      if cache_key in self._generated_function_cache:
          return self._generated_function_cache[cache_key]
      try:
          generated_function = cast(Callable,
              FunctionType(frame.f_code, globals=frame.f_globals, name=name))
      except TypeError:
          generated_function = self.unknown
      except Exception as exc:
          warnings.warn(f"Couldn't create function for {name} "
                        f" ({type(exc).__name__}: {exc})")
          generated_function = self.unknown
      self._generated_function_cache[cache_key] = generated_function
      return generated_function
  \<close>
\<close>

definition create_function ::
  "pyval \<Rightarrow> function_type \<Rightarrow> state \<Rightarrow> frame \<Rightarrow> pyval \<times> state" where
  "create_function self FunctionType s frame =
     (let name = co_name (f_code frame);
          cache_key = (name, f_lineno frame)
      in case generated_function_cache s cache_key of
           Some cached \<Rightarrow> (cached, s)
         | None \<Rightarrow>
             (let (generated_function, s') =
                    (case FunctionType (f_code frame) (f_globals frame) name of
                       Constructed \<Rightarrow>
                         (PyFunction (next_id s) name (f_code frame) (f_globals frame),
                          s\<lparr>next_id := Suc (next_id s)\<rparr>)
                     | RaisesTypeError \<Rightarrow> unknown self s
                     | RaisesException tp msg \<Rightarrow>
                         unknown self
                           (warn (''Couldn't create function for '' @ name @ '' '' @
                                  '' ('' @ tp @ '': '' @ msg @ '')'') s))
              in (generated_function,
                  s'\<lparr>generated_function_cache :=
                       (generated_function_cache s')(cache_key \<mapsto> generated_function)\<rparr>)))"

section \<open>The resolution orchestrator\<close>



section \<open>The exception classifier\<close>

text \<open>
  A traceback object (\<^verbatim>\<open>TracebackType\<close>) and \<^verbatim>\<open>traceback.walk_tb\<close>, which yields
  \<^verbatim>\<open>(tb.tb_frame, tb.tb_lineno)\<close> and follows \<^verbatim>\<open>tb.tb_next\<close> until it is \<^verbatim>\<open>None\<close>.
\<close>

datatype traceback =
  Traceback (tb_frame: frame) (tb_lineno: int) (tb_next: "traceback option")

fun walk_tb :: "traceback option \<Rightarrow> (frame \<times> int) list" where
  "walk_tb None = []"
| "walk_tb (Some (Traceback fr ln nx)) = (fr, ln) # walk_tb nx"

text \<open>
  \<^verbatim>\<open>
  for frame, lineno in traceback.walk_tb(exc_traceback):
      if self.our_frame(frame):
          return True
  return False
  \<close>
\<close>

fun is_internal_error_loop :: "pyval \<Rightarrow> (frame \<times> int) list \<Rightarrow> bool" where
  "is_internal_error_loop self [] = False"
| "is_internal_error_loop self ((frame, lineno) # rest) =
     (if our_frame self frame then True else is_internal_error_loop self rest)"

text \<open>
  \<^verbatim>\<open>
  def is_internal_error(self, exc_tp, exc_value, exc_traceback) -> bool:
      if not exc_tp:
          return False
      for frame, lineno in traceback.walk_tb(exc_traceback): ...
  \<close>
\<close>

definition is_internal_error ::
  "pyval \<Rightarrow> pyval \<Rightarrow> pyval \<Rightarrow> traceback option \<Rightarrow> error + bool" where
  "is_internal_error self exc_tp exc_value exc_traceback =
     (case truthy exc_tp of
        Inl e \<Rightarrow> Inl e
      | Inr t \<Rightarrow>
          if \<not> t then Inr False
          else Inr (is_internal_error_loop self (walk_tb exc_traceback)))"

section \<open>Example stacks\<close>

text \<open>
  The scenario of the notebook: the free function \<^verbatim>\<open>test\<close> calls the method
  \<^verbatim>\<open>caller\<close> of a \<^verbatim>\<open>StackInspectorDemo\<close> instance, which calls its method
  \<^verbatim>\<open>callee\<close>, which calls the inspector.
\<close>

definition insp :: pyval where
  "insp = PyObj 1 ''StackInspectorDemo'' [''StackInspector'', ''object''] IsTrue False"

definition test_fn :: pyval where
  "test_fn = PyObj 2 ''function'' [''object''] IsTrue True"

definition module_globals :: pydict where
  "module_globals = Map.empty(''test'' \<mapsto> test_fn)"

definition module_frame :: frame where
  "module_frame = Frame module_globals module_globals
      \<lparr>co_name = ''<module>'', co_firstlineno = 1, co_freevars = []\<rparr> 12 None"

definition test_frame :: frame where
  "test_frame = Frame (Map.empty(''demo'' \<mapsto> insp)) module_globals
      \<lparr>co_name = ''test'', co_firstlineno = 9, co_freevars = []\<rparr> 11 (Some module_frame)"

definition caller_meth_frame :: frame where
  "caller_meth_frame = Frame (Map.empty(''self'' \<mapsto> insp)) module_globals
      \<lparr>co_name = ''caller'', co_firstlineno = 6, co_freevars = []\<rparr> 7 (Some test_frame)"

definition callee_frame :: frame where
  "callee_frame = Frame (Map.empty(''self'' \<mapsto> insp)) module_globals
      \<lparr>co_name = ''callee'', co_firstlineno = 2, co_freevars = []\<rparr> 3 (Some caller_meth_frame)"

text \<open>
  A script whose top level binds the name \<^verbatim>\<open>self\<close> to an inspector and calls it:
  \<^verbatim>\<open>self = StackInspectorDemo(); self.caller_frame()\<close>. At module level the
  locals are the globals, and the frame has no caller.
\<close>

definition script_globals :: pydict where
  "script_globals = Map.empty(''self'' \<mapsto> insp)"

definition script_frame :: frame where
  "script_frame = Frame script_globals script_globals
      \<lparr>co_name = ''<module>'', co_firstlineno = 1, co_freevars = []\<rparr> 2 None"

text \<open>
  A thread whose outermost frame is a method of the inspector (\<^verbatim>\<open>run\<close>), which
  calls another of its methods (\<^verbatim>\<open>step\<close>).
\<close>

definition run_frame :: frame where
  "run_frame = Frame (Map.empty(''self'' \<mapsto> insp)) module_globals
      \<lparr>co_name = ''run'', co_firstlineno = 20, co_freevars = []\<rparr> 21 None"

definition step_frame :: frame where
  "step_frame = Frame (Map.empty(''self'' \<mapsto> insp)) module_globals
      \<lparr>co_name = ''step'', co_firstlineno = 30, co_freevars = []\<rparr> 31 (Some run_frame)"






text \<open>
  A function of the module that binds the integer 5 to a local named \<^verbatim>\<open>test\<close>,
  while the module's globals bind \<^verbatim>\<open>test\<close> to the function.
\<close>

definition five :: pyval where
  "five = PyObj 4 ''int'' [''object''] IsTrue False"


text \<open>
  An exception class (here \<^verbatim>\<open>ValueError\<close>), an instance of it, and two
  tracebacks: one that passes through the inspector's \<^verbatim>\<open>callee\<close> and \<^verbatim>\<open>caller\<close>
  on its way out of \<^verbatim>\<open>test\<close>, one that stays in \<^verbatim>\<open>test\<close>.
\<close>

definition value_error_class :: pyval where
  "value_error_class = PyObj 5 ''type'' [''object''] IsTrue True"

definition value_error :: pyval where
  "value_error = PyObj 6 ''ValueError'' [''Exception'', ''BaseException'', ''object''] IsTrue False"

definition internal_tb :: "traceback option" where
  "internal_tb =
     Some (Traceback test_frame 11
       (Some (Traceback caller_meth_frame 7
         (Some (Traceback callee_frame 3 None)))))"

definition external_tb :: "traceback option" where
  "external_tb = Some (Traceback module_frame 12 (Some (Traceback test_frame 11 None)))"

text \<open>\<^verbatim>\<open>cache_key = (name, frame.f_lineno)\<close>, with \<^verbatim>\<open>name = frame.f_code.co_name\<close>.\<close>

definition cache_key :: "frame \<Rightarrow> string \<times> int" where
  "cache_key frame = (co_name (f_code frame), f_lineno frame)"

text \<open>A run of the process: calls of \<^verbatim>\<open>create_function\<close> one after the other, each by
  some inspector on some frame, and the callables they return.\<close>

fun create_functions ::
  "function_type \<Rightarrow> state \<Rightarrow> (pyval \<times> frame) list \<Rightarrow> pyval list \<times> state" where
  "create_functions FunctionType s [] = ([], s)"
| "create_functions FunctionType s ((self, frame) # rest) =
     (let (v, s') = create_function self FunctionType s frame;
          (vs, s'') = create_functions FunctionType s' rest
      in (v # vs, s''))"

text \<open>
  A constructor for the examples: the factory passes no closure, so code with free
  variables is refused with \<^verbatim>\<open>TypeError\<close>; code named \<^verbatim>\<open>broken\<close> stands for any
  other failure.
\<close>

definition example_ctor :: function_type where
  "example_ctor c g n =
     (if n = ''broken'' then RaisesException ''MemoryError'' ''out of memory''
      else if co_freevars c = [] then Constructed else RaisesTypeError)"

definition failing_ctor :: function_type where
  "failing_ctor c g n = RaisesTypeError"

definition s0 :: state where
  "s0 = \<lparr>generated_function_cache = Map.empty, warnings = [], next_id = 100\<rparr>"

text \<open>A second inspector, and frames of anonymous functions at line 5 of two modules.\<close>

definition insp2 :: pyval where
  "insp2 = PyObj 11 ''StackInspector'' [''object''] IsTrue False"

definition lambda_a :: frame where
  "lambda_a = Frame Map.empty module_globals
      \<lparr>co_name = ''<lambda>'', co_firstlineno = 5, co_freevars = []\<rparr> 5 (Some test_frame)"

definition lambda_b :: frame where
  "lambda_b = Frame (Map.empty(''k'' \<mapsto> five)) script_globals
      \<lparr>co_name = ''<lambda>'', co_firstlineno = 5, co_freevars = [''k'']\<rparr> 5 (Some module_frame)"

definition closure_frame :: frame where
  "closure_frame = Frame Map.empty module_globals
      \<lparr>co_name = ''inner'', co_firstlineno = 60, co_freevars = [''x'']\<rparr> 61 (Some test_frame)"

definition broken_frame :: frame where
  "broken_frame = Frame Map.empty module_globals
      \<lparr>co_name = ''broken'', co_firstlineno = 70, co_freevars = []\<rparr> 71 (Some test_frame)"







definition example_calls :: "(pyval \<times> frame) list" where
  "example_calls = [(insp, lambda_a), (insp, closure_frame), (insp2, lambda_b)]"

text \<open>The state after a first call for the key \<^verbatim>\<open>('<lambda>', 5)\<close>.\<close>

definition s1 :: state where
  "s1 = \<lparr>generated_function_cache =
            Map.empty((''<lambda>'', 5) \<mapsto>
              PyFunction 100 ''<lambda>''
                \<lparr>co_name = ''<lambda>'', co_firstlineno = 5, co_freevars = []\<rparr> module_globals),
          warnings = [], next_id = 101\<rparr>"




text \<open>
  An array of several elements: not callable, and its truth test raises
  \<^verbatim>\<open>ValueError\<close>. A function of the module binds one to a local named \<^verbatim>\<open>test\<close>;
  another function binds one to a local named \<^verbatim>\<open>handler\<close>.
\<close>

definition array_local :: pyval where
  "array_local = PyObj 13 ''ndarray'' [''object''] (TruthRaises ''ValueError'') False"

definition array_frame :: frame where
  "array_frame = Frame (Map.empty(''test'' \<mapsto> array_local)) module_globals
      \<lparr>co_name = ''analyse'', co_firstlineno = 90, co_freevars = []\<rparr> 92 (Some module_frame)"

definition handler_fn :: pyval where
  "handler_fn = PyObj 15 ''function'' [''object''] IsTrue True"

definition handler_module_frame :: frame where
  "handler_module_frame =
     Frame (Map.empty(''handler'' \<mapsto> handler_fn)) (Map.empty(''handler'' \<mapsto> handler_fn))
      \<lparr>co_name = ''<module>'', co_firstlineno = 1, co_freevars = []\<rparr> 30 None"

definition samples_frame :: frame where
  "samples_frame =
     Frame (Map.empty(''handler'' \<mapsto> array_local)) (Map.empty(''handler'' \<mapsto> handler_fn))
      \<lparr>co_name = ''collect'', co_firstlineno = 20, co_freevars = []\<rparr> 22
      (Some handler_module_frame)"

text \<open>
  A function \<^verbatim>\<open>weights\<close> that binds an array to a local of its own name and then
  calls a method of the inspector.
\<close>

definition weights_fn :: pyval where
  "weights_fn = PyObj 16 ''function'' [''object''] IsTrue True"

definition weights_module_frame :: frame where
  "weights_module_frame =
     Frame (Map.empty(''weights'' \<mapsto> weights_fn)) (Map.empty(''weights'' \<mapsto> weights_fn))
      \<lparr>co_name = ''<module>'', co_firstlineno = 1, co_freevars = []\<rparr> 40 None"

definition weights_frame :: frame where
  "weights_frame =
     Frame (Map.empty(''weights'' \<mapsto> array_local)) (Map.empty(''weights'' \<mapsto> weights_fn))
      \<lparr>co_name = ''weights'', co_firstlineno = 10, co_freevars = []\<rparr> 12
      (Some weights_module_frame)"

definition weights_callee_frame :: frame where
  "weights_callee_frame = Frame (Map.empty(''self'' \<mapsto> insp)) module_globals
      \<lparr>co_name = ''callee'', co_firstlineno = 2, co_freevars = []\<rparr> 3 (Some weights_frame)"

text \<open>
  Two exception classes with a metaclass that defines \<^verbatim>\<open>__bool__\<close>: one tests
  false, the truth test of the other raises \<^verbatim>\<open>RuntimeError\<close>.
\<close>

definition quiet_class :: pyval where
  "quiet_class = PyObj 12 ''QuietMeta'' [''type'', ''object''] IsFalse True"

definition loud_class :: pyval where
  "loud_class = PyObj 14 ''LoudMeta'' [''type'', ''object''] (TruthRaises ''RuntimeError'') True"

section \<open>The frame-chain walker: properties\<close>


lemma caller_frame_loop_find:
  "caller_frame_loop self (Some f) =
     (case find (\<lambda>g. \<not> our_frame self g) (frame_chain f) of
        None \<Rightarrow> Inl AttributeError | Some g \<Rightarrow> Inr g)"
proof (induction f)
  case (Frame l g c n b)
  show ?case
  proof (cases b)
    case None
    then show ?thesis by simp
  next
    case (Some p)
    with Frame show ?thesis by simp
  qed
qed

text \<open>An activation of the inspector is a frame of the inspecting class.\<close>

lemma our_frame_activation: "our_frame self (activation self m back)"
  by (cases self)
     (simp_all add: our_frame_def activation_def isinstance_def class_of_def dict_get_def)

lemma f_back_activation: "f_back (activation self m back) = Some back"
  by (simp add: activation_def)

lemma caller_frame_find:
  "caller_frame self back =
     (case find (\<lambda>g. \<not> our_frame self g) (frame_chain back) of
        None \<Rightarrow> Inl AttributeError | Some g \<Rightarrow> Inr g)"
  using caller_frame_loop_find [of self "back"]
  by (simp add: caller_frame_def our_frame_activation f_back_activation)

lemmas example_defs =
  insp_def test_fn_def module_globals_def module_frame_def test_frame_def
  caller_meth_frame_def callee_frame_def script_globals_def script_frame_def
  run_frame_def step_frame_def

lemmas truth_test_defs =
  array_local_def array_frame_def handler_fn_def handler_module_frame_def samples_frame_def
  weights_fn_def weights_module_frame_def weights_frame_def weights_callee_frame_def
  quiet_class_def loud_class_def

lemmas walker_defs =
  caller_frame_def activation_def our_frame_def isinstance_def class_of_def dict_get_def

text \<open>
  Where the chain holds a frame that is not the inspector's, the walker does what
  it is meant to do: \<^verbatim>\<open>caller_frame()\<close> returns the first frame of the chain, from
  the frame of the inspecting call outward, whose local \<^verbatim>\<open>self\<close> is not an instance
  of the inspecting class, however many inspector frames come before it; and a
  frame it returns is never the inspector's.
\<close>

theorem caller_frame_first_external:
  "(\<forall>f. caller_frame self back = Inr f \<longrightarrow>
        \<not> our_frame self f \<and>
        find (\<lambda>g. \<not> our_frame self g) (frame_chain back) = Some f) \<and>
   ((\<exists>g \<in> set (frame_chain back). \<not> our_frame self g) \<longrightarrow>
        (\<exists>f. caller_frame self back = Inr f))"
  by (auto simp: caller_frame_find find_Some_iff find_None_iff split: option.splits)

text \<open>
  The notebook's scenario: called from \<^verbatim>\<open>callee\<close>, the walker skips \<^verbatim>\<open>callee\<close> and
  \<^verbatim>\<open>caller\<close> and returns the frame of \<^verbatim>\<open>test\<close>.
\<close>

theorem caller_frame_first_external_witness:
  "caller_frame insp callee_frame = Inr test_frame \<and>
   \<not> our_frame insp test_frame \<and>
   find (\<lambda>g. \<not> our_frame insp g) (frame_chain callee_frame) = Some test_frame \<and>
   (\<exists>g \<in> set (frame_chain callee_frame). \<not> our_frame insp g)"
proof -
  have r: "caller_frame insp callee_frame = Inr test_frame"
    by (simp add: walker_defs example_defs)
  have t: "test_frame \<in> set (frame_chain callee_frame)"
    by (simp add: example_defs)
  from caller_frame_first_external [of insp callee_frame] r
  have "\<not> our_frame insp test_frame \<and>
        find (\<lambda>g. \<not> our_frame insp g) (frame_chain callee_frame) = Some test_frame"
    by blast
  with r t show ?thesis by blast
qed

text \<open>
  C1. \<^verbatim>\<open>caller_frame()\<close> is to return no frame of the inspecting class unless every
  frame of the chain is one, and then the outermost frame. The source misses that
  case: in a thread whose frames \<^verbatim>\<open>step\<close> and \<^verbatim>\<open>run\<close> are all the inspector's, with
  \<^verbatim>\<open>run\<close> outermost, the walk steps past \<^verbatim>\<open>run\<close> and \<^verbatim>\<open>AttributeError\<close> is raised;
  the outermost frame is not returned.
\<close>

theorem caller_frame_all_owned_thread_raises:
  "frame_chain step_frame = [step_frame, run_frame] \<and>
   our_frame insp step_frame \<and> our_frame insp run_frame \<and> f_back run_frame = None \<and>
   caller_frame insp step_frame = Inl AttributeError \<and>
   caller_frame insp step_frame \<noteq> Inr run_frame"
  by (simp add: walker_defs example_defs)

text \<open>
  C2. Where every frame of the chain is the inspector's, the source walks past the
  outermost frame and raises \<^verbatim>\<open>AttributeError\<close>; it does not return the outermost
  frame. Here the chain is the single module-level frame of a script that binds
  \<^verbatim>\<open>self\<close>.
\<close>

theorem caller_frame_exhausted_raises:
  "frame_chain script_frame = [script_frame] \<and> our_frame insp script_frame \<and>
   caller_frame insp script_frame = Inl AttributeError"
  by (simp add: walker_defs example_defs)

section \<open>The definition resolver: properties\<close>
















section \<open>The exception classifier: properties\<close>

lemma is_internal_error_loop_iff:
  "is_internal_error_loop self entries \<longleftrightarrow> (\<exists>(frame, lineno) \<in> set entries. our_frame self frame)"
  by (induction self entries rule: is_internal_error_loop.induct) auto

text \<open>
  C4, as amended. \<^verbatim>\<open>is_internal_error\<close> returns true if and only if the exception
  kind tests true and some entry \<^verbatim>\<open>(frame, lineno)\<close> of the traceback has a frame of
  the inspecting class or of a subclass; for a kind that tests false, an absent
  kind (\<^verbatim>\<open>None\<close>) among them, it returns false; and where the truth test of the
  kind raises, that exception leaves \<^verbatim>\<open>is_internal_error\<close>.
\<close>

theorem is_internal_error_iff:
  "is_internal_error self exc_tp exc_value exc_traceback =
     (case truthy exc_tp of
        Inl e \<Rightarrow> Inl e
      | Inr t \<Rightarrow>
          Inr (t \<and> (\<exists>(frame, lineno) \<in> set (walk_tb exc_traceback). our_frame self frame))) \<and>
   is_internal_error self PyNone exc_value exc_traceback = Inr False"
  by (simp add: is_internal_error_def is_internal_error_loop_iff split: sum.splits)

text \<open>
  An exception that passed through the inspector's frames is internal; one raised
  in \<^verbatim>\<open>test\<close> alone is not; and with no exception kind the answer is false even for
  the traceback through the inspector.
\<close>

theorem is_internal_error_iff_witness:
  "truthy value_error_class = Inr True \<and>
   is_internal_error insp value_error_class value_error internal_tb = Inr True \<and>
   (\<exists>(frame, lineno) \<in> set (walk_tb internal_tb). our_frame insp frame) \<and>
   is_internal_error insp value_error_class value_error external_tb = Inr False \<and>
   \<not> (\<exists>(frame, lineno) \<in> set (walk_tb external_tb). our_frame insp frame) \<and>
   is_internal_error insp PyNone PyNone internal_tb = Inr False"
proof -
  have t: "truthy value_error_class = Inr True"
    by (simp add: value_error_class_def)
  have i: "\<exists>(frame, lineno) \<in> set (walk_tb internal_tb). our_frame insp frame"
    by (simp add: internal_tb_def walker_defs example_defs)
  have e: "\<not> (\<exists>(frame, lineno) \<in> set (walk_tb external_tb). our_frame insp frame)"
    by (simp add: external_tb_def walker_defs example_defs)
  from is_internal_error_iff [of insp value_error_class value_error internal_tb] t i
  have 1: "is_internal_error insp value_error_class value_error internal_tb = Inr True"
    by simp
  from is_internal_error_iff [of insp value_error_class value_error external_tb] t e
  have 2: "is_internal_error insp value_error_class value_error external_tb = Inr False"
    by simp
  from is_internal_error_iff [of insp PyNone PyNone internal_tb]
  have 3: "is_internal_error insp PyNone PyNone internal_tb = Inr False"
    by simp
  from t i e 1 2 3 show ?thesis by blast
qed

text \<open>
  C4, as stated, fails for a kind that is present and tests false: the traceback
  passes through the inspector's frames and the answer is false. For a kind whose
  truth test raises there is no answer.
\<close>

theorem is_internal_error_falsy_kind_counterexample:
  "quiet_class \<noteq> PyNone \<and> truthy quiet_class = Inr False \<and>
   (\<exists>(frame, lineno) \<in> set (walk_tb internal_tb). our_frame insp frame) \<and>
   is_internal_error insp quiet_class value_error internal_tb = Inr False \<and>
   loud_class \<noteq> PyNone \<and>
   is_internal_error insp loud_class value_error internal_tb = Inl (Raised ''RuntimeError'')"
  by (simp add: is_internal_error_def internal_tb_def walker_defs example_defs truth_test_defs)

text \<open>
  C10. The result of \<^verbatim>\<open>is_internal_error\<close> does not depend on the exception value.
\<close>

theorem is_internal_error_ignores_value:
  "is_internal_error self exc_tp v1 exc_traceback = is_internal_error self exc_tp v2 exc_traceback"
  by (simp add: is_internal_error_def)

section \<open>The synthetic callable factory: properties\<close>

lemma create_function_hit:
  "generated_function_cache s (cache_key f) = Some v \<Longrightarrow>
   create_function self FT s f = (v, s)"
  by (simp add: create_function_def cache_key_def)

lemma create_function_caches:
  "generated_function_cache (snd (create_function self FT s f)) (cache_key f)
     = Some (fst (create_function self FT s f))"
  by (simp add: create_function_def cache_key_def unknown_def warn_def Let_def
           split: option.splits construction.splits prod.splits)

text \<open>Nothing is ever removed from the cache or overwritten in it.\<close>

lemma create_function_keeps:
  "generated_function_cache s k = Some v \<Longrightarrow>
   generated_function_cache (snd (create_function self FT s f)) k = Some v"
  by (auto simp add: create_function_def unknown_def warn_def Let_def
           split: option.splits construction.splits prod.splits)

lemma create_functions_keeps:
  "generated_function_cache s k = Some v \<Longrightarrow>
   generated_function_cache (snd (create_functions FT s calls)) k = Some v"
proof (induction calls arbitrary: s)
  case Nil
  then show ?case by simp
next
  case (Cons c calls)
  obtain self f where c: "c = (self, f)" by (cases c)
  from Cons.prems
  have "generated_function_cache (snd (create_function self FT s f)) k = Some v"
    by (rule create_function_keeps)
  from Cons.IH [OF this] c show ?case by (simp add: split_beta)
qed

lemma create_functions_hit:
  "generated_function_cache s k = Some v \<Longrightarrow> j < length calls \<Longrightarrow>
   cache_key (snd (calls ! j)) = k \<Longrightarrow>
   fst (create_functions FT s calls) ! j = v"
proof (induction calls arbitrary: s j)
  case Nil
  then show ?case by simp
next
  case (Cons c calls)
  obtain self f where c: "c = (self, f)" by (cases c)
  show ?case
  proof (cases j)
    case 0
    with Cons.prems c show ?thesis
      by (simp add: create_function_hit split_beta)
  next
    case (Suc j')
    from Cons.prems(1)
    have "generated_function_cache (snd (create_function self FT s f)) k = Some v"
      by (rule create_function_keeps)
    with Cons.IH [of "snd (create_function self FT s f)" j'] Cons.prems Suc c
    show ?thesis by (simp add: split_beta)
  qed
qed

lemmas factory_defs =
  create_function_def unknown_def warn_def cache_key_def Let_def example_ctor_def
  failing_ctor_def s0_def s1_def insp2_def lambda_a_def lambda_b_def closure_frame_def
  broken_frame_def example_calls_def

text \<open>
  C5. In every run, any two calls of \<^verbatim>\<open>create_function\<close> on frames with the same
  \<^verbatim>\<open>(co_name, f_lineno)\<close> return the identical object, whoever calls and from
  whatever call site; and once the key is in the cache, the cached callable is
  returned and nothing is constructed: the state is left as it was.
\<close>

theorem create_function_idempotent:
  "(i < j \<and> j < length calls \<and> cache_key (snd (calls ! i)) = cache_key (snd (calls ! j)) \<longrightarrow>
      fst (create_functions FT s calls) ! i = fst (create_functions FT s calls) ! j) \<and>
   (generated_function_cache s (cache_key frame) = Some cached \<longrightarrow>
      create_function self FT s frame = (cached, s))"
proof -
  have "fst (create_functions FT s calls) ! i = fst (create_functions FT s calls) ! j"
    if "i < j" and "j < length calls"
      and "cache_key (snd (calls ! i)) = cache_key (snd (calls ! j))"
    using that
  proof (induction calls arbitrary: s i j)
    case Nil
    then show ?case by simp
  next
    case (Cons c calls)
    obtain self f where c: "c = (self, f)" by (cases c)
    from Cons.prems obtain j' where j: "j = Suc j'" by (cases j) auto
    let ?s = "snd (create_function self FT s f)"
    show ?case
    proof (cases i)
      case 0
      have "generated_function_cache ?s (cache_key f) = Some (fst (create_function self FT s f))"
        by (rule create_function_caches)
      from create_functions_hit [OF this, of j' calls FT] Cons.prems 0 j c
      show ?thesis by (simp add: split_beta)
    next
      case (Suc i')
      with Cons.IH [of i' j' ?s] Cons.prems j c show ?thesis
        by (simp add: split_beta)
    qed
  qed
  then show ?thesis by (auto simp: create_function_hit)
qed

text \<open>
  Two anonymous functions at line 5, called from different frames of different
  modules by different inspectors, with another call in between: the first and the
  third call return the same function object, number 100. With that key cached, a
  call returns it and leaves the state alone, even under a constructor that fails.
\<close>

theorem create_function_idempotent_witness:
  "(0::nat) < 2 \<and> 2 < length example_calls \<and>
   cache_key (snd (example_calls ! 0)) = cache_key (snd (example_calls ! 2)) \<and>
   f_back (snd (example_calls ! 0)) \<noteq> f_back (snd (example_calls ! 2)) \<and>
   fst (create_functions example_ctor s0 example_calls) ! 0 =
     fst (create_functions example_ctor s0 example_calls) ! 2 \<and>
   ident (fst (create_functions example_ctor s0 example_calls) ! 0) = 100 \<and>
   generated_function_cache s1 (cache_key lambda_b) =
     Some (PyFunction 100 ''<lambda>'' (f_code lambda_a) module_globals) \<and>
   create_function insp2 failing_ctor s1 lambda_b =
     (PyFunction 100 ''<lambda>'' (f_code lambda_a) module_globals, s1)"
proof -
  have h: "(0::nat) < 2 \<and> 2 < length example_calls \<and>
           cache_key (snd (example_calls ! 0)) = cache_key (snd (example_calls ! 2))"
    by (simp add: factory_defs)
  have b: "f_back (snd (example_calls ! 0)) \<noteq> f_back (snd (example_calls ! 2))"
    by (simp add: factory_defs example_defs)
  have v: "ident (fst (create_functions example_ctor s0 example_calls) ! 0) = 100"
    by (simp add: factory_defs example_defs)
  have c: "generated_function_cache s1 (cache_key lambda_b) =
             Some (PyFunction 100 ''<lambda>'' (f_code lambda_a) module_globals)"
    by (simp add: factory_defs)
  from create_function_idempotent [of 0 2 example_calls example_ctor s0]
       create_function_idempotent
         [of _ _ _ failing_ctor s1 lambda_b
             "PyFunction 100 ''<lambda>'' (f_code lambda_a) module_globals" insp2]
       h c
  have "fst (create_functions example_ctor s0 example_calls) ! 0 =
          fst (create_functions example_ctor s0 example_calls) ! 2 \<and>
        create_function insp2 failing_ctor s1 lambda_b =
          (PyFunction 100 ''<lambda>'' (f_code lambda_a) module_globals, s1)"
    by blast
  with h b v c show ?thesis by blast
qed

text \<open>
  C6. \<^verbatim>\<open>create_function\<close> always returns a callable and a state. On a key not yet
  cached, when the constructor raises \<^verbatim>\<open>TypeError\<close> the result is the inspector's
  no-op method \<^verbatim>\<open>unknown\<close> and no warning is issued; when it raises another exception
  the result is the same method and one warning is issued, which names the code
  and gives the exception's type and text. In every case the cache then maps the
  key to the result, so a later call on the frame returns it and constructs nothing.
\<close>

theorem create_function_fallback:
  "generated_function_cache (snd (create_function self FT s frame)) (cache_key frame)
     = Some (fst (create_function self FT s frame)) \<and>
   (generated_function_cache s (cache_key frame) = None \<and>
    FT (f_code frame) (f_globals frame) (co_name (f_code frame)) = RaisesTypeError \<longrightarrow>
      fst (create_function self FT s frame) = PyMethod (next_id s) (ident self) ''unknown'' \<and>
      warnings (snd (create_function self FT s frame)) = warnings s) \<and>
   (generated_function_cache s (cache_key frame) = None \<and>
    FT (f_code frame) (f_globals frame) (co_name (f_code frame)) = RaisesException tp msg \<longrightarrow>
      fst (create_function self FT s frame) = PyMethod (next_id s) (ident self) ''unknown'' \<and>
      warnings (snd (create_function self FT s frame)) =
        warnings s @ [''Couldn't create function for '' @ co_name (f_code frame) @
                      ''  ('' @ tp @ '': '' @ msg @ '')'']) \<and>
   create_function self' FT' (snd (create_function self FT s frame)) frame
     = (fst (create_function self FT s frame), snd (create_function self FT s frame))"
proof -
  have a: "generated_function_cache (snd (create_function self FT s frame)) (cache_key frame)
     = Some (fst (create_function self FT s frame))"
    by (rule create_function_caches)
  have b: "generated_function_cache s (cache_key frame) = None \<and>
    FT (f_code frame) (f_globals frame) (co_name (f_code frame)) = RaisesTypeError \<longrightarrow>
      fst (create_function self FT s frame) = PyMethod (next_id s) (ident self) ''unknown'' \<and>
      warnings (snd (create_function self FT s frame)) = warnings s"
    by (simp add: create_function_def cache_key_def unknown_def Let_def)
  have c: "generated_function_cache s (cache_key frame) = None \<and>
    FT (f_code frame) (f_globals frame) (co_name (f_code frame)) = RaisesException tp msg \<longrightarrow>
      fst (create_function self FT s frame) = PyMethod (next_id s) (ident self) ''unknown'' \<and>
      warnings (snd (create_function self FT s frame)) =
        warnings s @ [''Couldn't create function for '' @ co_name (f_code frame) @
                      ''  ('' @ tp @ '': '' @ msg @ '')'']"
    by (simp add: create_function_def cache_key_def unknown_def warn_def Let_def)
  have d: "create_function self' FT' (snd (create_function self FT s frame)) frame
     = (fst (create_function self FT s frame), snd (create_function self FT s frame))"
    using a by (rule create_function_hit)
  from a b c d show ?thesis by blast
qed

text \<open>
  Code with a free variable cannot be made a function: the result is \<^verbatim>\<open>unknown\<close>,
  without a warning. Code whose construction runs out of memory gives \<^verbatim>\<open>unknown\<close>
  too, with the warning. Both results are in the cache afterwards, and a second
  call on the failed frame returns the cached method without a second warning.
\<close>

theorem create_function_fallback_witness:
  "generated_function_cache s0 (cache_key closure_frame) = None \<and>
   example_ctor (f_code closure_frame) (f_globals closure_frame)
     (co_name (f_code closure_frame)) = RaisesTypeError \<and>
   fst (create_function insp example_ctor s0 closure_frame) = PyMethod 100 1 ''unknown'' \<and>
   warnings (snd (create_function insp example_ctor s0 closure_frame)) = [] \<and>
   generated_function_cache (snd (create_function insp example_ctor s0 closure_frame))
     (''inner'', 61) = Some (PyMethod 100 1 ''unknown'') \<and>
   generated_function_cache s0 (cache_key broken_frame) = None \<and>
   example_ctor (f_code broken_frame) (f_globals broken_frame)
     (co_name (f_code broken_frame)) = RaisesException ''MemoryError'' ''out of memory'' \<and>
   fst (create_function insp example_ctor s0 broken_frame) = PyMethod 100 1 ''unknown'' \<and>
   warnings (snd (create_function insp example_ctor s0 broken_frame)) =
     [''Couldn't create function for broken  (MemoryError: out of memory)''] \<and>
   generated_function_cache (snd (create_function insp example_ctor s0 broken_frame))
     (''broken'', 71) = Some (PyMethod 100 1 ''unknown'') \<and>
   create_function insp2 example_ctor
     (snd (create_function insp example_ctor s0 broken_frame)) broken_frame =
     (PyMethod 100 1 ''unknown'', snd (create_function insp example_ctor s0 broken_frame))"
proof -
  have h1: "generated_function_cache s0 (cache_key closure_frame) = None \<and>
            example_ctor (f_code closure_frame) (f_globals closure_frame)
              (co_name (f_code closure_frame)) = RaisesTypeError"
    by (simp add: factory_defs)
  have h2: "generated_function_cache s0 (cache_key broken_frame) = None \<and>
            example_ctor (f_code broken_frame) (f_globals broken_frame)
              (co_name (f_code broken_frame)) = RaisesException ''MemoryError'' ''out of memory''"
    by (simp add: factory_defs)
  have k1: "cache_key closure_frame = (''inner'', 61) \<and> next_id s0 = 100 \<and> ident insp = 1 \<and>
            warnings s0 = []"
    by (simp add: factory_defs example_defs)
  have k2: "cache_key broken_frame = (''broken'', 71) \<and> co_name (f_code broken_frame) = ''broken''"
    by (simp add: factory_defs example_defs)
  from create_function_fallback
         [of insp example_ctor s0 closure_frame "''MemoryError''" "''out of memory''"
             insp2 example_ctor]
       h1 k1
  have c1: "fst (create_function insp example_ctor s0 closure_frame) = PyMethod 100 1 ''unknown'' \<and>
        warnings (snd (create_function insp example_ctor s0 closure_frame)) = [] \<and>
        generated_function_cache (snd (create_function insp example_ctor s0 closure_frame))
          (''inner'', 61) = Some (PyMethod 100 1 ''unknown'')"
    by simp
  from create_function_fallback
         [of insp example_ctor s0 broken_frame "''MemoryError''" "''out of memory''"
             insp2 example_ctor]
       h2 k1 k2
  have c2: "fst (create_function insp example_ctor s0 broken_frame) = PyMethod 100 1 ''unknown'' \<and>
        warnings (snd (create_function insp example_ctor s0 broken_frame)) =
          [''Couldn't create function for broken  (MemoryError: out of memory)''] \<and>
        generated_function_cache (snd (create_function insp example_ctor s0 broken_frame))
          (''broken'', 71) = Some (PyMethod 100 1 ''unknown'') \<and>
        create_function insp2 example_ctor
          (snd (create_function insp example_ctor s0 broken_frame)) broken_frame =
          (PyMethod 100 1 ''unknown'', snd (create_function insp example_ctor s0 broken_frame))"
    by (simp add: prod_eq_iff)
  from h1 h2 c1 c2 show ?thesis by blast
qed

text \<open>
  C9. After one call of \<^verbatim>\<open>create_function\<close> for a key, and whatever calls follow,
  a call on any frame with that code name and line number returns the callable
  of the first call and changes nothing, whatever the frame's code object and
  globals are and whatever the constructor would do with them.
\<close>

theorem create_function_cached_ignores_frame:
  assumes "co_name (f_code f2) = co_name (f_code f1)" and "f_lineno f2 = f_lineno f1"
  shows "create_function self2 FT2
           (snd (create_functions FT (snd (create_function self1 FT1 s f1)) calls)) f2
         = (fst (create_function self1 FT1 s f1),
            snd (create_functions FT (snd (create_function self1 FT1 s f1)) calls))"
proof -
  from assms have k: "cache_key f2 = cache_key f1" by (simp add: cache_key_def)
  have "generated_function_cache (snd (create_function self1 FT1 s f1)) (cache_key f1)
          = Some (fst (create_function self1 FT1 s f1))"
    by (rule create_function_caches)
  then have "generated_function_cache
               (snd (create_functions FT (snd (create_function self1 FT1 s f1)) calls))
               (cache_key f2) = Some (fst (create_function self1 FT1 s f1))"
    using k by (simp add: create_functions_keeps)
  then show ?thesis by (rule create_function_hit)
qed

text \<open>
  The first call builds a function from the code and globals of \<^verbatim>\<open>lambda_a\<close>. The
  later call is on \<^verbatim>\<open>lambda_b\<close>, whose code has a free variable and whose globals
  are another module's, under a constructor that always fails: it returns the
  function built from \<^verbatim>\<open>lambda_a\<close>.
\<close>

theorem create_function_cached_ignores_frame_witness:
  "co_name (f_code lambda_b) = co_name (f_code lambda_a) \<and>
   f_lineno lambda_b = f_lineno lambda_a \<and>
   f_code lambda_b \<noteq> f_code lambda_a \<and>
   f_globals lambda_b ''self'' \<noteq> f_globals lambda_a ''self'' \<and>
   fst (create_function insp2 failing_ctor
          (snd (create_functions example_ctor
                  (snd (create_function insp example_ctor s0 lambda_a))
                  [(insp, closure_frame)])) lambda_b)
     = PyFunction 100 ''<lambda>'' (f_code lambda_a) (f_globals lambda_a)"
proof -
  have h1: "co_name (f_code lambda_b) = co_name (f_code lambda_a)"
    by (simp add: factory_defs)
  have h2: "f_lineno lambda_b = f_lineno lambda_a"
    by (simp add: factory_defs)
  have d: "f_code lambda_b \<noteq> f_code lambda_a \<and>
           f_globals lambda_b ''self'' \<noteq> f_globals lambda_a ''self''"
    by (simp add: factory_defs example_defs)
  have v: "fst (create_function insp example_ctor s0 lambda_a)
             = PyFunction 100 ''<lambda>'' (f_code lambda_a) (f_globals lambda_a)"
    by (simp add: factory_defs example_defs)
  from create_function_cached_ignores_frame
         [OF h1 h2, of insp2 failing_ctor example_ctor insp example_ctor s0
            "[(insp, closure_frame)]"] v
  have "fst (create_function insp2 failing_ctor
          (snd (create_functions example_ctor
                  (snd (create_function insp example_ctor s0 lambda_a))
                  [(insp, closure_frame)])) lambda_b)
     = PyFunction 100 ''<lambda>'' (f_code lambda_a) (f_globals lambda_a)"
    by simp
  with h1 h2 d show ?thesis by blast
qed

section \<open>The resolution orchestrator: properties\<close>







end
